theory Spec2Isabelle
  imports Complex_Main "HOL-Library.AList"
begin

section \<open>Tabular data\<close>

text \<open>
  The services work on pandas data frames. A frame is modelled by its column
  headers (name and dtype) and its rows; every row carries its index label, which
  row filters keep unchanged. Floating-point numbers are idealised as reals; the
  values that numpy produces where a real has none (0/0, x/0) are kept apart in
  \<open>npfloat\<close>.
\<close>

datatype dtype = Int64 | Float64 | BoolT | Object | Datetime64

datatype cell = NA | Num real | Bl bool | Str string | Ts int

type_synonym series = "(int \<times> cell) list"

record dataframe =
  columns :: "(string \<times> dtype) list"
  rows :: "(int \<times> cell list) list"

datatype npfloat = Fin real | PInf | NInf | NaN

datatype error =
    KeyError string
  | ColumnNotFound string
  | InvalidMethod
  | TypeError

text \<open>
  \<open>KeyError c\<close> is what \<open>df[c]\<close> raises for a missing column,
  \<open>ColumnNotFound c\<close> is \<open>ValueError("Column 'c' not found")\<close>,
  \<open>InvalidMethod\<close> is \<open>ValueError("Method must be 'zscore' or 'iqr'")\<close>, and
  \<open>TypeError\<close> is what the numeric routines raise on a value that is not a number.
\<close>

subsection \<open>numpy arithmetic on floats\<close>

definition np_div :: "real \<Rightarrow> real \<Rightarrow> npfloat" where
  "np_div a b =
     (if b \<noteq> 0 then Fin (a / b)
      else if a = 0 then NaN
      else if 0 < a then PInf else NInf)"

fun np_abs :: "npfloat \<Rightarrow> npfloat" where
  "np_abs (Fin x) = Fin \<bar>x\<bar>"
| "np_abs PInf = PInf"
| "np_abs NInf = PInf"
| "np_abs NaN = NaN"

fun np_gt :: "npfloat \<Rightarrow> real \<Rightarrow> bool" where
  "np_gt (Fin x) t = (t < x)"
| "np_gt PInf t = True"
| "np_gt NInf t = False"
| "np_gt NaN t = False"

fun np_le :: "npfloat \<Rightarrow> real \<Rightarrow> bool" where
  "np_le (Fin x) t = (x \<le> t)"
| "np_le PInf t = False"
| "np_le NInf t = True"
| "np_le NaN t = False"

fun lt_np :: "real \<Rightarrow> npfloat \<Rightarrow> bool" where
  "lt_np x (Fin b) = (x < b)"
| "lt_np x PInf = True"
| "lt_np x NInf = False"
| "lt_np x NaN = False"

fun gt_np :: "real \<Rightarrow> npfloat \<Rightarrow> bool" where
  "gt_np x (Fin b) = (b < x)"
| "gt_np x PInf = False"
| "gt_np x NInf = True"
| "gt_np x NaN = False"

fun ge_np :: "real \<Rightarrow> npfloat \<Rightarrow> bool" where
  "ge_np x (Fin b) = (b \<le> x)"
| "ge_np x PInf = False"
| "ge_np x NInf = True"
| "ge_np x NaN = False"

fun le_np :: "real \<Rightarrow> npfloat \<Rightarrow> bool" where
  "le_np x (Fin b) = (x \<le> b)"
| "le_np x PInf = True"
| "le_np x NInf = False"
| "le_np x NaN = False"

fun np_times :: "npfloat \<Rightarrow> real \<Rightarrow> npfloat" where
  "np_times (Fin x) k = Fin (x * k)"
| "np_times PInf k = (if 0 < k then PInf else if k < 0 then NInf else NaN)"
| "np_times NInf k = (if 0 < k then NInf else if k < 0 then PInf else NaN)"
| "np_times NaN k = NaN"

subsection \<open>Series\<close>

definition cell_at :: "cell list \<Rightarrow> nat \<Rightarrow> cell" where
  "cell_at cs i = (if i < length cs then cs ! i else NA)"

fun col_pos :: "(string \<times> dtype) list \<Rightarrow> string \<Rightarrow> nat option" where
  "col_pos [] c = None"
| "col_pos ((n, d) # hs) c =
     (if n = c then Some 0 else map_option Suc (col_pos hs c))"

definition getitem :: "dataframe \<Rightarrow> string \<Rightarrow> error + series" where
  "getitem df c =
     (case col_pos (columns df) c of
        None \<Rightarrow> Inl (KeyError c)
      | Some i \<Rightarrow> Inr (map (\<lambda>(l, cs). (l, cell_at cs i)) (rows df)))"

definition dropna_series :: "series \<Rightarrow> series" where
  "dropna_series s = filter (\<lambda>(l, c). c \<noteq> NA) s"

text \<open>
  What the numeric routines read from a null-dropped series. \<open>stats.zscore\<close>
  takes numbers and booleans, a boolean counting as 0 or 1, and raises on text and
  timestamps. \<open>Series.quantile\<close> interpolates numbers and timestamps, a timestamp
  standing for its integer value, and raises on booleans and text. \<open>to_floats\<close>
  reads a series of numbers alone: the statistics of the numeric summary, taken
  together, run on nothing else, and the theorems speak through it of a column of
  numbers.
\<close>

fun zscore_input :: "series \<Rightarrow> error + real list" where
  "zscore_input [] = Inr []"
| "zscore_input ((l, Num r) # s) =
     (case zscore_input s of Inl e \<Rightarrow> Inl e | Inr rs \<Rightarrow> Inr (r # rs))"
| "zscore_input ((l, Bl b) # s) =
     (case zscore_input s of Inl e \<Rightarrow> Inl e | Inr rs \<Rightarrow> Inr ((if b then 1 else 0) # rs))"
| "zscore_input ((l, c) # s) = Inl TypeError"

fun quantile_input :: "series \<Rightarrow> error + real list" where
  "quantile_input [] = Inr []"
| "quantile_input ((l, Num r) # s) =
     (case quantile_input s of Inl e \<Rightarrow> Inl e | Inr rs \<Rightarrow> Inr (r # rs))"
| "quantile_input ((l, Ts t) # s) =
     (case quantile_input s of Inl e \<Rightarrow> Inl e | Inr rs \<Rightarrow> Inr (real_of_int t # rs))"
| "quantile_input ((l, c) # s) = Inl TypeError"

fun to_floats :: "series \<Rightarrow> error + real list" where
  "to_floats [] = Inr []"
| "to_floats ((l, Num r) # s) =
     (case to_floats s of Inl e \<Rightarrow> Inl e | Inr rs \<Rightarrow> Inr (r # rs))"
| "to_floats ((l, c) # s) = Inl TypeError"

fun is_timestamp :: "cell \<Rightarrow> bool" where
  "is_timestamp (Ts t) = True"
| "is_timestamp c = False"

subsection \<open>Column statistics\<close>

definition mean :: "real list \<Rightarrow> npfloat" where
  "mean xs = np_div (sum_list xs) (real (length xs))"

definition median :: "real list \<Rightarrow> npfloat" where
  "median xs =
     (if xs = [] then NaN
      else let s = sort xs; n = length xs
           in if odd n then Fin (s ! (n div 2))
              else Fin ((s ! (n div 2 - 1) + s ! (n div 2)) / 2))"

text \<open>\<open>scipy.stats.zscore(a)\<close> with its defaults \<open>axis=0, ddof=0\<close>.\<close>

definition zscore :: "real list \<Rightarrow> npfloat list" where
  "zscore a =
     (let n = real (length a);
          mn = sum_list a / n;
          std = sqrt (sum_list (map (\<lambda>x. (x - mn)\<^sup>2) a) / n)
      in map (\<lambda>x. np_div (x - mn) std) a)"

text \<open>\<open>Series.quantile(q)\<close>, linear interpolation between the two closest ranks.\<close>

definition quantile :: "real list \<Rightarrow> real \<Rightarrow> npfloat" where
  "quantile xs q =
     (if xs = [] then NaN
      else let s = sort xs;
               pos = q * real (length xs - 1);
               lo = nat \<lfloor>pos\<rfloor>;
               hi = nat \<lceil>pos\<rceil>
           in Fin (s ! lo + (s ! hi - s ! lo) * (pos - real lo)))"

definition iqr_bounds :: "real list \<Rightarrow> npfloat \<times> npfloat" where
  "iqr_bounds xs =
     (case (quantile xs (1/4), quantile xs (3/4)) of
        (Fin q1, Fin q3) \<Rightarrow>
          (let iqr = q3 - q1
           in (Fin (q1 - 3/2 * iqr), Fin (q3 + 3/2 * iqr)))
      | _ \<Rightarrow> (NaN, NaN))"

section \<open>The cleaning pipeline\<close>

subsection \<open>Missing values\<close>

definition dropna :: "dataframe \<Rightarrow> dataframe" where
  "dropna df = df\<lparr>rows := filter (\<lambda>(l, cs). NA \<notin> set cs) (rows df)\<rparr>"

definition is_number_dtype :: "dtype \<Rightarrow> bool" where
  "is_number_dtype d = (d = Int64 \<or> d = Float64)"

definition column_floats :: "dataframe \<Rightarrow> nat \<Rightarrow> real list" where
  "column_floats df i =
     concat (map (\<lambda>(l, cs). case cell_at cs i of Num r \<Rightarrow> [r] | _ \<Rightarrow> []) (rows df))"

definition fill_cell :: "npfloat \<Rightarrow> cell \<Rightarrow> cell" where
  "fill_cell v c = (case (c, v) of (NA, Fin m) \<Rightarrow> Num m | _ \<Rightarrow> c)"

definition fillna_numeric :: "(real list \<Rightarrow> npfloat) \<Rightarrow> dataframe \<Rightarrow> dataframe" where
  "fillna_numeric agg df =
     df\<lparr>rows :=
        map (\<lambda>(l, cs).
               (l, map (\<lambda>(i, c).
                          if i < length (columns df) \<and> is_number_dtype (snd (columns df ! i))
                          then fill_cell (agg (column_floats df i)) c
                          else c)
                       (zip [0 ..< length cs] cs)))
            (rows df)\<rparr>"

subsection \<open>Duplicates\<close>

fun keep_first :: "cell list list \<Rightarrow> (int \<times> cell list) list \<Rightarrow> (int \<times> cell list) list" where
  "keep_first seen [] = []"
| "keep_first seen ((l, cs) # rs) =
     (if cs \<in> set seen then keep_first seen rs
      else (l, cs) # keep_first (cs # seen) rs)"

definition drop_duplicates :: "dataframe \<Rightarrow> dataframe" where
  "drop_duplicates df = df\<lparr>rows := keep_first [] (rows df)\<rparr>"

subsection \<open>Outlier removal and the whole pipeline\<close>

definition truthy :: "string option \<Rightarrow> bool" where
  "truthy s = (case s of None \<Rightarrow> False | Some c \<Rightarrow> c \<noteq> [])"

text \<open>
  The three stages of \<open>clean_dataset\<close>. \<open>handle_missing_stage\<close> is its chain
  of tests on \<open>handle_missing\<close>, \<open>remove_outlier_rows\<close> the body of its last test
  (\<open>remove_outliers and outlier_column\<close>), and \<open>apply_mask\<close> the three lines
  that build \<open>full_mask\<close>, assign the mask of the non-null rows by index label and
  select the rows of the frame.
\<close>

definition apply_mask :: "dataframe \<Rightarrow> series \<Rightarrow> bool list \<Rightarrow> dataframe" where
  "apply_mask df data outlier_mask =
     (let assigned = map_of (zip (map fst data) outlier_mask);
          full_mask = (\<lambda>l. case assigned l of None \<Rightarrow> True | Some b \<Rightarrow> b)
      in df\<lparr>rows := filter (\<lambda>(l, cs). full_mask l) (rows df)\<rparr>)"

definition remove_outlier_rows :: "dataframe \<Rightarrow> string \<Rightarrow> string \<Rightarrow> error + dataframe" where
  "remove_outlier_rows df c m =
     (if c \<notin> set (map fst (columns df)) then Inl (ColumnNotFound c)
      else case getitem df c of
        Inl e \<Rightarrow> Inl e
      | Inr s \<Rightarrow>
          (let data = dropna_series s in
           if m = ''zscore'' then
             (case zscore_input data of
                Inl e \<Rightarrow> Inl e
              | Inr vals \<Rightarrow>
                  Inr (apply_mask df data
                         (map (\<lambda>z. np_le (np_abs z) 3) (zscore vals))))
           else if m = ''iqr'' then
             (case quantile_input data of
                Inl e \<Rightarrow> Inl e
              | Inr vals \<Rightarrow>
                  (let (lower_bound, upper_bound) = iqr_bounds vals
                   in Inr (apply_mask df data
                             (map (\<lambda>x. ge_np x lower_bound \<and> le_np x upper_bound) vals))))
           else Inl InvalidMethod))"

definition handle_missing_stage :: "string \<Rightarrow> dataframe \<Rightarrow> dataframe" where
  "handle_missing_stage handle_missing df =
     (if handle_missing = ''drop'' then dropna df
      else if handle_missing = ''mean'' then fillna_numeric mean df
      else if handle_missing = ''median'' then fillna_numeric median df
      else df)"

definition clean_dataset ::
  "dataframe \<Rightarrow> string \<Rightarrow> bool \<Rightarrow> bool \<Rightarrow> string option \<Rightarrow> string \<Rightarrow> error + dataframe" where
  "clean_dataset df handle_missing remove_duplicates remove_outliers outlier_column outlier_method =
     (let cleaned1 = handle_missing_stage handle_missing df;
          cleaned2 = (if remove_duplicates then drop_duplicates cleaned1 else cleaned1)
      in if remove_outliers \<and> truthy outlier_column
         then remove_outlier_rows cleaned2 (the outlier_column) outlier_method
         else Inr cleaned2)"

subsection \<open>The cleaning endpoint\<close>

record clean_response =
  rows_before :: int
  rows_after :: int
  rows_removed :: int
  cleaned_rows :: "(int \<times> cell list) list"

datatype http_error = HTTP400 error

definition len :: "dataframe \<Rightarrow> int" where
  "len df = int (length (rows df))"

definition clean_dataset_endpoint ::
  "dataframe \<Rightarrow> string \<Rightarrow> bool \<Rightarrow> bool \<Rightarrow> string option \<Rightarrow> string
     \<Rightarrow> http_error + clean_response" where
  "clean_dataset_endpoint df handle_missing remove_duplicates remove_outliers
       outlier_column outlier_method =
     (case clean_dataset df handle_missing remove_duplicates remove_outliers
             outlier_column outlier_method of
        Inl e \<Rightarrow> Inl (HTTP400 e)
      | Inr cleaned_df \<Rightarrow>
          Inr \<lparr>rows_before = len df,
               rows_after = len cleaned_df,
               rows_removed = len df - len cleaned_df,
               cleaned_rows = rows cleaned_df\<rparr>)"

section \<open>Outlier detection\<close>

record outlier_info =
  method_name :: string
  threshold :: "real option"
  lower_bound :: "npfloat option"
  upper_bound :: "npfloat option"
  total_outliers :: int
  outlier_percentage :: npfloat
  outlier_indices :: "int list"
  outlier_values :: "cell list"

definition selected :: "series \<Rightarrow> bool list \<Rightarrow> series" where
  "selected data outliers = map fst (filter snd (zip data outliers))"

definition count_true :: "bool list \<Rightarrow> int" where
  "count_true bs = int (length (filter id bs))"

text \<open>
  The IQR report converts its bounds with \<open>float\<close>, which raises on the timestamp
  bounds of a datetime column; \<open>clean_dataset\<close> compares with the bounds without
  converting them.
\<close>

definition detect_outliers :: "dataframe \<Rightarrow> string \<Rightarrow> string \<Rightarrow> error + outlier_info" where
  "detect_outliers df c m =
     (case getitem df c of
        Inl e \<Rightarrow> Inl e
      | Inr s \<Rightarrow>
          (let data = dropna_series s in
           if m = ''zscore'' then
             (case zscore_input data of
                Inl e \<Rightarrow> Inl e
              | Inr vals \<Rightarrow>
                  (let z_scores = map np_abs (zscore vals);
                       outlier_threshold = 3;
                       outliers = map (\<lambda>z. np_gt z outlier_threshold) z_scores
                   in Inr \<lparr>method_name = ''Z-Score'',
                           threshold = Some outlier_threshold,
                           lower_bound = None,
                           upper_bound = None,
                           total_outliers = count_true outliers,
                           outlier_percentage =
                             np_times (np_div (real_of_int (count_true outliers))
                                              (real (length data))) 100,
                           outlier_indices = take 100 (map fst (selected data outliers)),
                           outlier_values = take 10 (map snd (selected data outliers))\<rparr>))
           else if m = ''iqr'' then
             (case quantile_input data of
                Inl e \<Rightarrow> Inl e
              | Inr vals \<Rightarrow>
                  (let (lower, upper) = iqr_bounds vals;
                       outliers = map (\<lambda>x. lt_np x lower \<or> gt_np x upper) vals
                   in if list_ex is_timestamp (map snd data) then Inl TypeError
                      else Inr \<lparr>method_name = ''IQR'',
                           threshold = None,
                           lower_bound = Some lower,
                           upper_bound = Some upper,
                           total_outliers = count_true outliers,
                           outlier_percentage =
                             np_times (np_div (real_of_int (count_true outliers))
                                              (real (length data))) 100,
                           outlier_indices = take 100 (map fst (selected data outliers)),
                           outlier_values = take 10 (map snd (selected data outliers))\<rparr>))
           else Inl InvalidMethod))"

section \<open>Column statistics service\<close>

text \<open>
  \<open>pd.api.types.is_numeric_dtype\<close> holds of the integer and float dtypes and of
  \<open>bool\<close>; \<open>is_datetime64_any_dtype\<close> and \<open>is_bool_dtype\<close> are the other two
  tests of \<open>FileHandler.get_column_info\<close>, which names a column's type. It has a
  name of its own for boolean columns, but tests \<open>is_numeric_dtype\<close> first.
\<close>

definition is_numeric_dtype :: "dtype \<Rightarrow> bool" where
  "is_numeric_dtype d = (d = Int64 \<or> d = Float64 \<or> d = BoolT)"

definition is_datetime64_any_dtype :: "dtype \<Rightarrow> bool" where
  "is_datetime64_any_dtype d = (d = Datetime64)"

definition is_bool_dtype :: "dtype \<Rightarrow> bool" where
  "is_bool_dtype d = (d = BoolT)"

definition col_type :: "dtype \<Rightarrow> string" where
  "col_type d =
     (if is_numeric_dtype d then ''numeric''
      else if is_datetime64_any_dtype d then ''datetime''
      else if is_bool_dtype d then ''boolean''
      else ''categorical'')"

text \<open>
  The order in which \<open>Series.mode\<close> sorts its result: the order of the values
  within one kind of cell. Cells of different kinds are left unordered.
\<close>

fun str_less :: "string \<Rightarrow> string \<Rightarrow> bool" where
  "str_less [] [] = False"
| "str_less [] (y # ys) = True"
| "str_less (x # xs) [] = False"
| "str_less (x # xs) (y # ys) =
     ((of_char x :: nat) < of_char y \<or> (x = y \<and> str_less xs ys))"

fun cell_less :: "cell \<Rightarrow> cell \<Rightarrow> bool" where
  "cell_less (Num a) (Num b) = (a < b)"
| "cell_less (Bl a) (Bl b) = (\<not> a \<and> b)"
| "cell_less (Str a) (Str b) = str_less a b"
| "cell_less (Ts a) (Ts b) = (a < b)"
| "cell_less a b = False"

definition least :: "cell list \<Rightarrow> cell option" where
  "least vs =
     (case vs of
        [] \<Rightarrow> None
      | v # ws \<Rightarrow> Some (fold (\<lambda>w m. if cell_less w m then w else m) ws v))"

definition uniques :: "cell list \<Rightarrow> cell list" where
  "uniques vs = rev (remdups (rev vs))"

definition value_counts :: "cell list \<Rightarrow> (cell \<times> int) list" where
  "value_counts vs =
     sort_key (\<lambda>(v, n). - n) (map (\<lambda>v. (v, int (count_list vs v))) (uniques vs))"

definition mode :: "cell list \<Rightarrow> cell list" where
  "mode vs =
     (case value_counts vs of
        [] \<Rightarrow> []
      | (v, n) # rest \<Rightarrow> map fst (filter (\<lambda>(w, k). k = n) (value_counts vs)))"

record categorical_summary =
  cat_count :: int
  unique_values :: int
  most_common :: "cell option"
  top_value_counts :: "(cell \<times> int) list"
  mode_frequency :: int

text \<open>
  Of the numeric summary the model keeps the count and the numbers it is computed
  from: its other entries (mean, median, deviation, quartiles, skewness, kurtosis,
  normality test, density curves) are floating-point statistics of those numbers,
  computed by pandas and scipy. On data that are not numbers the summary is not
  built: \<open>data.quantile(0.25)\<close> raises \<open>TypeError\<close> on booleans, and the other
  routines raise on text and timestamps.
\<close>

record numeric_summary =
  num_count :: int
  num_data :: "real list"

datatype summary =
    NoNumericData
  | Numeric numeric_summary
  | Categorical categorical_summary

definition numeric_statistics :: "series \<Rightarrow> error + summary" where
  "numeric_statistics s =
     (let data = dropna_series s
      in if length data = 0 then Inr NoNumericData
         else case to_floats data of
                Inl e \<Rightarrow> Inl e
              | Inr vals \<Rightarrow> Inr (Numeric \<lparr>num_count = int (length data), num_data = vals\<rparr>))"

definition categorical_statistics :: "series \<Rightarrow> summary" where
  "categorical_statistics s =
     (let vs = map snd s; vc = value_counts (filter (\<lambda>c. c \<noteq> NA) vs)
      in Categorical
           \<lparr>cat_count = int (length s),
            unique_values = int (length (uniques (filter (\<lambda>c. c \<noteq> NA) vs))),
            most_common = least (mode (filter (\<lambda>c. c \<noteq> NA) vs)),
            top_value_counts = take 10 vc,
            mode_frequency = (if length vc > 0 then snd (hd vc) else 0)\<rparr>)"

definition dtype_of :: "dataframe \<Rightarrow> string \<Rightarrow> dtype" where
  "dtype_of df c = (case map_of (columns df) c of Some d \<Rightarrow> d | None \<Rightarrow> Object)"

text \<open>
  \<open>column_statistics\<close> is the summary of one column, which
  \<open>calculate_statistics\<close> computes in the same way for a requested column and
  inside its loop over all columns.
\<close>

definition column_statistics :: "dataframe \<Rightarrow> string \<Rightarrow> error + summary" where
  "column_statistics df c =
     (case getitem df c of
        Inl e \<Rightarrow> Inl e
      | Inr s \<Rightarrow>
          (let col_data = dropna_series s
           in if is_numeric_dtype (dtype_of df c)
              then numeric_statistics col_data
              else Inr (categorical_statistics col_data)))"

text \<open>
  The result dictionary keeps its keys in insertion order, and a second assignment to
  a key replaces its value in place.
\<close>

fun all_columns_statistics ::
  "dataframe \<Rightarrow> string list \<Rightarrow> (string \<times> summary) list \<Rightarrow> error + (string \<times> summary) list" where
  "all_columns_statistics df [] result = Inr result"
| "all_columns_statistics df (col # cols) result =
     (case column_statistics df col of
        Inl e \<Rightarrow> Inl e
      | Inr v \<Rightarrow> all_columns_statistics df cols (AList.update col v result))"

definition calculate_statistics ::
  "dataframe \<Rightarrow> string option \<Rightarrow> error + (string \<times> summary) list" where
  "calculate_statistics df column =
     (if truthy column then
        (if the column \<notin> set (map fst (columns df)) then Inl (ColumnNotFound (the column))
         else case column_statistics df (the column) of
                Inl e \<Rightarrow> Inl e
              | Inr v \<Rightarrow> Inr (AList.update (the column) v []))
      else all_columns_statistics df (map fst (columns df)) [])"

section \<open>Example frames\<close>

definition sales_frame :: dataframe where
  "sales_frame =
     \<lparr>columns = [(''amount'', Float64), (''region'', Object)],
      rows = [(0, [Num 1, Str ''north'']), (1, [NA, Str ''south'']),
              (2, [Num 1, Str ''north'']), (3, [Num 5, NA])]\<rparr>"

definition price_frame :: dataframe where
  "price_frame =
     \<lparr>columns = [(''price'', Float64)],
      rows = [(0, [Num 7]), (1, [NA]), (2, [Num 7])]\<rparr>"

definition null_frame :: dataframe where
  "null_frame = \<lparr>columns = [(''score'', Float64)], rows = [(0, [NA]), (1, [NA])]\<rparr>"

definition flags_frame :: dataframe where
  "flags_frame =
     \<lparr>columns = [(''active'', BoolT), (''city'', Object)],
      rows = [(0, [Bl True, Str ''Oslo'']), (1, [Bl False, Str ''Rome'']),
              (2, [Bl True, Str ''Oslo''])]\<rparr>"

definition readings_frame :: dataframe where
  "readings_frame =
     \<lparr>columns = [(''value'', Float64)],
      rows = [(0, [Num 1]), (1, [Num 2]), (2, [Num 3]), (3, [Num 4]), (4, [Num 5]),
              (5, [Num 100])]\<rparr>"

definition load_frame :: dataframe where
  "load_frame =
     \<lparr>columns = [(''load'', Float64)],
      rows = [(0, [Num 0]), (1, [Num 0]), (2, [Num 0]), (3, [Num 0]), (4, [Num 0]),
              (5, [Num 0]), (6, [Num 0]), (7, [Num 0]), (8, [Num 0]), (9, [Num 2]),
              (10, [Num 9])]\<rparr>"

section \<open>Standard deviations in the words of the specification\<close>

text \<open>
  The specification speaks of the z-score \<open>(x - mean) / s\<close> with \<open>s\<close> the sample
  standard deviation (denominator \<open>n - 1\<close>) and of the values with \<open>|z| > 3\<close>. The
  population standard deviation has the denominator \<open>n\<close>. These definitions are
  not taken from the source; the theorems compare \<open>detect_outliers\<close> with them.
\<close>

definition column_mean :: "real list \<Rightarrow> real" where
  "column_mean xs = sum_list xs / real (length xs)"

definition squared_deviations :: "real list \<Rightarrow> real" where
  "squared_deviations xs = sum_list (map (\<lambda>x. (x - column_mean xs)\<^sup>2) xs)"

definition population_std :: "real list \<Rightarrow> real" where
  "population_std xs = sqrt (squared_deviations xs / real (length xs))"

definition sample_std :: "real list \<Rightarrow> real" where
  "sample_std xs = sqrt (squared_deviations xs / (real (length xs) - 1))"

definition sample_zscore_outlier :: "real list \<Rightarrow> real \<Rightarrow> bool" where
  "sample_zscore_outlier xs x = (3 < \<bar>(x - column_mean xs) / sample_std xs\<bar>)"

definition population_zscore_outlier :: "real list \<Rightarrow> cell \<Rightarrow> bool" where
  "population_zscore_outlier xs c =
     (case c of Num x \<Rightarrow> 3 * population_std xs < \<bar>x - column_mean xs\<bar> | _ \<Rightarrow> False)"

section \<open>Row counts of the cleaning pipeline\<close>

lemma length_keep_first: "length (keep_first seen rs) \<le> length rs"
  by (induction seen rs rule: keep_first.induct) auto

lemma set_keep_first: "set (keep_first seen rs) \<subseteq> set rs"
  by (induction seen rs rule: keep_first.induct) auto

lemma rows_dropna_length: "length (rows (dropna df)) \<le> length (rows df)"
  by (simp add: dropna_def)

lemma rows_fillna_length: "length (rows (fillna_numeric agg df)) = length (rows df)"
  by (simp add: fillna_numeric_def)

lemma rows_handle_missing_length:
  "length (rows (handle_missing_stage hm df)) \<le> length (rows df)"
  by (simp add: handle_missing_stage_def rows_dropna_length rows_fillna_length)

lemma rows_drop_duplicates_length: "length (rows (drop_duplicates df)) \<le> length (rows df)"
  by (simp add: drop_duplicates_def length_keep_first)

lemma rows_drop_duplicates_subset: "set (rows (drop_duplicates df)) \<subseteq> set (rows df)"
  by (simp add: drop_duplicates_def set_keep_first)

lemma rows_apply_mask_length: "length (rows (apply_mask df d m)) \<le> length (rows df)"
  by (simp add: apply_mask_def Let_def)

lemma rows_apply_mask_subset: "set (rows (apply_mask df d m)) \<subseteq> set (rows df)"
  by (auto simp: apply_mask_def Let_def)

lemma remove_outlier_rows_cases:
  assumes "remove_outlier_rows df c m = Inr d"
  shows "\<exists>s bs. d = apply_mask df s bs"
  using assms
  by (auto simp: remove_outlier_rows_def Let_def split: if_splits sum.splits prod.splits)

lemma remove_outlier_rows_length:
  "remove_outlier_rows df c m = Inr d \<Longrightarrow> length (rows d) \<le> length (rows df)"
  using remove_outlier_rows_cases rows_apply_mask_length by blast

lemma remove_outlier_rows_subset:
  "remove_outlier_rows df c m = Inr d \<Longrightarrow> set (rows d) \<subseteq> set (rows df)"
  using remove_outlier_rows_cases rows_apply_mask_subset by blast

lemma clean_dataset_length:
  assumes "clean_dataset df hm rd ro oc om = Inr c"
  shows "length (rows c) \<le> length (rows df)"
proof -
  define c1 where "c1 = handle_missing_stage hm df"
  define c2 where "c2 = (if rd then drop_duplicates c1 else c1)"
  have l1: "length (rows c1) \<le> length (rows df)"
    unfolding c1_def by (rule rows_handle_missing_length)
  have l2: "length (rows c2) \<le> length (rows c1)"
    unfolding c2_def by (simp add: rows_drop_duplicates_length)
  have "length (rows c) \<le> length (rows c2)"
  proof (cases "ro \<and> truthy oc")
    case True
    then have "remove_outlier_rows c2 (the oc) om = Inr c"
      using assms by (simp add: clean_dataset_def Let_def c1_def c2_def split: if_splits)
    then show ?thesis by (rule remove_outlier_rows_length)
  next
    case False
    then have "c = c2"
      using assms by (auto simp: clean_dataset_def Let_def c1_def c2_def)
    then show ?thesis by simp
  qed
  with l1 l2 show ?thesis by linarith
qed

text \<open>
  Claim C1. Whenever the cleaning endpoint answers, the cleaned frame has no more
  rows than the uploaded one: the reported \<open>rows_removed\<close> is not negative and
  \<open>rows_after = rows_before - rows_removed\<close>, where \<open>rows_before\<close> and
  \<open>rows_after\<close> are the row counts of the input and of the returned data.
\<close>

theorem clean_rows_removed_nonneg:
  assumes "clean_dataset_endpoint df hm rd ro oc om = Inr r"
  shows "rows_after r = rows_before r - rows_removed r \<and> 0 \<le> rows_removed r
         \<and> rows_before r = int (length (rows df))
         \<and> rows_after r = int (length (cleaned_rows r))
         \<and> length (cleaned_rows r) \<le> length (rows df)"
proof -
  obtain c where c: "clean_dataset df hm rd ro oc om = Inr c"
    and r: "r = \<lparr>rows_before = len df, rows_after = len c,
                 rows_removed = len df - len c, cleaned_rows = rows c\<rparr>"
    using assms by (auto simp: clean_dataset_endpoint_def split: sum.splits)
  have "length (rows c) \<le> length (rows df)"
    using c by (rule clean_dataset_length)
  then show ?thesis by (simp add: r len_def)
qed

lemma sales_frame_drop:
  "clean_dataset_endpoint sales_frame ''drop'' True False None ''zscore'' =
     Inr \<lparr>rows_before = 4, rows_after = 1, rows_removed = 3,
          cleaned_rows = [(0, [Num 1, Str ''north''])]\<rparr>"
  by (simp add: clean_dataset_endpoint_def clean_dataset_def sales_frame_def
      handle_missing_stage_def dropna_def drop_duplicates_def truthy_def len_def)

theorem clean_rows_removed_nonneg_witness:
  "clean_dataset_endpoint sales_frame ''drop'' True False None ''zscore'' =
     Inr \<lparr>rows_before = 4, rows_after = 1, rows_removed = 3,
          cleaned_rows = [(0, [Num 1, Str ''north''])]\<rparr>
   \<and> (1::int) = 4 - 3 \<and> (0::int) \<le> 3 \<and> length (rows sales_frame) = 4"
  using clean_rows_removed_nonneg [OF sales_frame_drop] sales_frame_drop
  by simp

section \<open>Null-freeness after the drop policy\<close>

lemma dropna_rows_no_null: "r \<in> set (rows (dropna df)) \<Longrightarrow> NA \<notin> set (snd r)"
  by (auto simp: dropna_def)

lemma clean_dataset_subset:
  assumes "clean_dataset df hm rd ro oc om = Inr c"
  shows "set (rows c) \<subseteq> set (rows (handle_missing_stage hm df))"
proof -
  define c1 where "c1 = handle_missing_stage hm df"
  define c2 where "c2 = (if rd then drop_duplicates c1 else c1)"
  have l2: "set (rows c2) \<subseteq> set (rows c1)"
    unfolding c2_def using rows_drop_duplicates_subset by simp
  have "set (rows c) \<subseteq> set (rows c2)"
  proof (cases "ro \<and> truthy oc")
    case True
    then have "remove_outlier_rows c2 (the oc) om = Inr c"
      using assms by (simp add: clean_dataset_def Let_def c1_def c2_def split: if_splits)
    then show ?thesis by (rule remove_outlier_rows_subset)
  next
    case False
    then have "c = c2"
      using assms by (auto simp: clean_dataset_def Let_def c1_def c2_def)
    then show ?thesis by simp
  qed
  with l2 show ?thesis unfolding c1_def by blast
qed

text \<open>
  Claim C10. With \<open>handle_missing = "drop"\<close>, whatever the duplicate and outlier
  settings, every row of the frame that \<open>clean_dataset\<close> returns is a row that the
  drop stage kept, so no cell of the result is null.
\<close>

theorem clean_drop_no_nulls:
  assumes "clean_dataset df ''drop'' rd ro oc om = Inr c"
  shows "set (rows c) \<subseteq> set (rows (dropna df)) \<and> (\<forall>r \<in> set (rows c). NA \<notin> set (snd r))"
proof -
  have "set (rows c) \<subseteq> set (rows (handle_missing_stage ''drop'' df))"
    using assms by (rule clean_dataset_subset)
  then have sub: "set (rows c) \<subseteq> set (rows (dropna df))"
    by (simp add: handle_missing_stage_def)
  then show ?thesis using dropna_rows_no_null by blast
qed

lemma sales_frame_drop_iqr:
  "clean_dataset sales_frame ''drop'' True True (Some ''amount'') ''iqr'' =
     Inr \<lparr>columns = [(''amount'', Float64), (''region'', Object)],
          rows = [(0, [Num 1, Str ''north''])]\<rparr>"
  by (simp add: clean_dataset_def sales_frame_def handle_missing_stage_def dropna_def
      drop_duplicates_def truthy_def remove_outlier_rows_def getitem_def dropna_series_def
      iqr_bounds_def quantile_def apply_mask_def cell_at_def)

theorem clean_drop_no_nulls_witness:
  "clean_dataset sales_frame ''drop'' True True (Some ''amount'') ''iqr'' =
     Inr \<lparr>columns = [(''amount'', Float64), (''region'', Object)],
          rows = [(0, [Num 1, Str ''north''])]\<rparr>
   \<and> NA \<notin> set [Num 1, Str ''north'']"
  using clean_drop_no_nulls [OF sales_frame_drop_iqr] sales_frame_drop_iqr
  by simp

section \<open>Unrecognised settings\<close>

text \<open>
  Claim C3. The claim asks for an error on a \<open>handle_missing\<close> value other than
  \<open>"drop"\<close>, \<open>"mean"\<close> and \<open>"median"\<close>. On the frame below, which has nulls and a
  repeated row, the value \<open>"interpolate"\<close> raises nothing: the nulls stay, and the
  duplicate stage runs on the untouched frame.
\<close>

theorem clean_unknown_policy_proceeds:
  "clean_dataset sales_frame ''interpolate'' True False None ''zscore'' =
     Inr \<lparr>columns = [(''amount'', Float64), (''region'', Object)],
          rows = [(0, [Num 1, Str ''north'']), (1, [NA, Str ''south'']),
                  (3, [Num 5, NA])]\<rparr>"
  by (simp add: clean_dataset_def sales_frame_def handle_missing_stage_def
      drop_duplicates_def truthy_def)

lemma columns_handle_missing: "columns (handle_missing_stage hm df) = columns df"
  by (simp add: handle_missing_stage_def dropna_def fillna_numeric_def)

lemma columns_drop_duplicates: "columns (drop_duplicates df) = columns df"
  by (simp add: drop_duplicates_def)

text \<open>
  Claim C4, as stated, fails: with outlier removal enabled and the target column
  absent (or the empty string), \<open>clean_dataset\<close> returns the frame of the first two
  stages and raises nothing.
\<close>

theorem clean_outliers_without_column_counterexample:
  "clean_dataset sales_frame ''drop'' True True None ''zscore'' =
     Inr \<lparr>columns = [(''amount'', Float64), (''region'', Object)],
          rows = [(0, [Num 1, Str ''north''])]\<rparr>
   \<and> clean_dataset sales_frame ''drop'' True True (Some []) ''zscore'' =
     Inr \<lparr>columns = [(''amount'', Float64), (''region'', Object)],
          rows = [(0, [Num 1, Str ''north''])]\<rparr>"
  by (simp add: clean_dataset_def sales_frame_def handle_missing_stage_def dropna_def
      drop_duplicates_def truthy_def)

text \<open>
  Claim C4, amended. With outlier removal enabled and the target column absent or
  empty, the outlier stage is skipped and the result is the frame left by the
  missing-value and duplicate stages. With a non-empty target column that is not a
  column of that frame, \<open>clean_dataset\<close> fails with \<open>ColumnNotFound\<close>.
\<close>

theorem clean_outliers_column_guard:
  "(\<not> truthy oc \<longrightarrow>
      clean_dataset df hm rd True oc om =
        Inr (if rd then drop_duplicates (handle_missing_stage hm df)
             else handle_missing_stage hm df))
   \<and> (truthy oc \<and>
        the oc \<notin> set (map fst (columns (if rd then drop_duplicates (handle_missing_stage hm df)
                                          else handle_missing_stage hm df))) \<longrightarrow>
      clean_dataset df hm rd True oc om = Inl (ColumnNotFound (the oc)))"
  by (simp add: clean_dataset_def remove_outlier_rows_def Let_def)

theorem clean_outliers_column_guard_witness:
  "\<not> truthy None
   \<and> clean_dataset sales_frame ''drop'' True True None ''iqr'' =
       Inr (drop_duplicates (handle_missing_stage ''drop'' sales_frame))
   \<and> truthy (Some ''price'')
   \<and> ''price'' \<notin> set (map fst (columns (drop_duplicates (handle_missing_stage ''drop'' sales_frame))))
   \<and> clean_dataset sales_frame ''drop'' True True (Some ''price'') ''iqr'' =
       Inl (ColumnNotFound ''price'')"
proof -
  have a: "\<not> truthy None" by (simp add: truthy_def)
  have b: "truthy (Some ''price'')" by (simp add: truthy_def)
  have c: "''price'' \<notin> set (map fst (columns (drop_duplicates (handle_missing_stage ''drop'' sales_frame))))"
    by (simp add: columns_drop_duplicates columns_handle_missing sales_frame_def)
  show ?thesis
    using a b c
      clean_outliers_column_guard [of None sales_frame "''drop''" True "''iqr''"]
      clean_outliers_column_guard [of "Some ''price''" sales_frame "''drop''" True "''iqr''"]
    by simp
qed

section \<open>Columns of numbers\<close>

lemma to_floats_zscore_input: "to_floats s = Inr vals \<Longrightarrow> zscore_input s = Inr vals"
proof (induction s arbitrary: vals)
  case Nil
  then show ?case by simp
next
  case (Cons p s)
  obtain l c where p: "p = (l, c)" by (cases p)
  show ?case
  proof (cases c)
    case (Num r)
    then obtain rs where rs: "to_floats s = Inr rs" "vals = r # rs"
      using Cons.prems p by (auto split: sum.splits)
    then show ?thesis using Cons.IH [OF rs(1)] p Num by simp
  qed (use Cons.prems p in simp_all)
qed

lemma to_floats_quantile_input: "to_floats s = Inr vals \<Longrightarrow> quantile_input s = Inr vals"
proof (induction s arbitrary: vals)
  case Nil
  then show ?case by simp
next
  case (Cons p s)
  obtain l c where p: "p = (l, c)" by (cases p)
  show ?case
  proof (cases c)
    case (Num r)
    then obtain rs where rs: "to_floats s = Inr rs" "vals = r # rs"
      using Cons.prems p by (auto split: sum.splits)
    then show ?thesis using Cons.IH [OF rs(1)] p Num by simp
  qed (use Cons.prems p in simp_all)
qed

lemma to_floats_no_timestamp:
  "to_floats s = Inr vals \<Longrightarrow> \<not> list_ex is_timestamp (map snd s)"
proof (induction s arbitrary: vals)
  case Nil
  then show ?case by simp
next
  case (Cons p s)
  obtain l c where p: "p = (l, c)" by (cases p)
  show ?case
  proof (cases c)
    case (Num r)
    then obtain rs where rs: "to_floats s = Inr rs" "vals = r # rs"
      using Cons.prems p by (auto split: sum.splits)
    then show ?thesis using Cons.IH [OF rs(1)] p Num by simp
  qed (use Cons.prems p in simp_all)
qed

section \<open>Outlier detection on degenerate columns\<close>

lemma sum_list_replicate_real: "sum_list (replicate n (v::real)) = real n * v"
  by (induction n) (simp_all add: algebra_simps)

lemma zscore_replicate: "zscore (replicate n v) = replicate n NaN"
  by (cases "n = 0") (simp_all add: zscore_def Let_def sum_list_replicate_real np_div_def)

lemma const_list_replicate: "\<forall>x\<in>set a. x = v \<Longrightarrow> a = replicate (length a) v"
  by (induction a) auto

lemma zscore_const:
  assumes "\<forall>x\<in>set a. x = v"
  shows "zscore a = replicate (length a) NaN"
proof -
  have "a = replicate (length a) v" using assms by (rule const_list_replicate)
  then have "zscore a = zscore (replicate (length a) v)" by simp
  then show ?thesis by (simp only: zscore_replicate)
qed

lemma sort_replicate: "sort (replicate n (v::real)) = replicate n v"
  by (simp add: sorted_replicate sort_key_id_if_sorted)

lemma quantile_replicate:
  assumes "0 < n" "0 \<le> q" "q \<le> 1"
  shows "quantile (replicate n v) q = Fin v"
proof -
  let ?pos = "q * real (n - 1)"
  have "?pos \<le> real (n - 1)"
    using assms by (simp add: mult_left_le_one_le)
  moreover have "0 \<le> ?pos" using assms by simp
  ultimately have lo: "nat \<lfloor>?pos\<rfloor> < n" and hi: "nat \<lceil>?pos\<rceil> < n"
    using assms(1) by linarith+
  show ?thesis
    using assms(1) lo hi by (simp add: quantile_def sort_replicate Let_def)
qed

lemma iqr_bounds_replicate:
  "0 < n \<Longrightarrow> iqr_bounds (replicate n v) = (Fin v, Fin v)"
  by (simp add: iqr_bounds_def quantile_replicate)

lemma iqr_bounds_Nil: "iqr_bounds [] = (NaN, NaN)"
  by (simp add: iqr_bounds_def quantile_def)

lemma selected_all_False: "selected data (replicate n False) = []"
  by (induction data arbitrary: n)
     (auto simp: selected_def zip_replicate2 filter_empty_conv dest: set_zip_rightD)

lemma count_true_all_False: "count_true (replicate n False) = 0"
  by (simp add: count_true_def)

lemma zscore_flags_const:
  assumes "\<forall>x\<in>set vals. x = v"
  shows "map (\<lambda>z. np_gt z 3) (map np_abs (zscore vals)) = replicate (length vals) False"
  by (simp add: zscore_const [OF assms])

lemma iqr_flags_const:
  assumes "\<forall>x\<in>set vals. x = v"
  shows "(case iqr_bounds vals of
            (lower, upper) \<Rightarrow> map (\<lambda>x. lt_np x lower \<or> gt_np x upper) vals)
           = replicate (length vals) False"
proof (cases "vals = []")
  case True
  then show ?thesis by (simp add: iqr_bounds_Nil)
next
  case False
  have rep: "vals = replicate (length vals) v"
    using assms by (rule const_list_replicate)
  have "iqr_bounds vals = (Fin v, Fin v)"
    using False iqr_bounds_replicate [of "length vals" v] rep by simp
  moreover have "map (\<lambda>x. x < v \<or> v < x) vals = replicate (length vals) False"
    using assms by (simp add: map_replicate_const [symmetric] cong: map_cong)
  ultimately show ?thesis by simp
qed

text \<open>
  Claim C7. For a column whose non-null values are numbers that are all equal (a
  single value, or none, included), \<open>detect_outliers\<close> reports no outlier with
  either method: \<open>total_outliers = 0\<close> and the index list is empty.
\<close>

theorem detect_outliers_constant_column:
  assumes "getitem df c = Inr s"
    and "to_floats (dropna_series s) = Inr vals"
    and "\<forall>x\<in>set vals. x = v"
  shows "\<exists>zi qi. detect_outliers df c ''zscore'' = Inr zi
           \<and> total_outliers zi = 0 \<and> outlier_indices zi = []
           \<and> detect_outliers df c ''iqr'' = Inr qi
           \<and> total_outliers qi = 0 \<and> outlier_indices qi = []"
proof -
  have z: "map ((\<lambda>z. np_gt z 3) \<circ> np_abs) (zscore vals) = replicate (length vals) False"
    using zscore_flags_const [OF assms(3)] by simp
  obtain lower upper where b: "iqr_bounds vals = (lower, upper)"
    by (cases "iqr_bounds vals")
  have q: "map (\<lambda>x. lt_np x lower \<or> gt_np x upper) vals = replicate (length vals) False"
    using iqr_flags_const [OF assms(3)] b by simp
  show ?thesis
    using assms(1)
    by (simp add: detect_outliers_def Let_def z b q selected_all_False count_true_all_False
        to_floats_zscore_input [OF assms(2)] to_floats_quantile_input [OF assms(2)]
        to_floats_no_timestamp [OF assms(2)])
qed

lemma price_frame_column:
  "getitem price_frame ''price'' = Inr [(0, Num 7), (1, NA), (2, Num 7)]"
  by (simp add: getitem_def price_frame_def cell_at_def)

lemma price_frame_floats:
  "to_floats (dropna_series [(0, Num 7), (1, NA), (2, Num 7)]) = Inr [7, 7]"
  by (simp add: dropna_series_def)

theorem detect_outliers_constant_column_witness:
  "getitem price_frame ''price'' = Inr [(0, Num 7), (1, NA), (2, Num 7)]
   \<and> to_floats (dropna_series [(0, Num 7), (1, NA), (2, Num 7)]) = Inr [7, 7]
   \<and> (\<exists>zi qi. detect_outliers price_frame ''price'' ''zscore'' = Inr zi
           \<and> total_outliers zi = 0 \<and> outlier_indices zi = []
           \<and> detect_outliers price_frame ''price'' ''iqr'' = Inr qi
           \<and> total_outliers qi = 0 \<and> outlier_indices qi = [])"
proof -
  have h: "\<forall>x\<in>set [7, 7 :: real]. x = 7" by simp
  show ?thesis
    using price_frame_column price_frame_floats h
      detect_outliers_constant_column [OF price_frame_column price_frame_floats h]
    by blast
qed

text \<open>
  Claim C6. The claim asks for a percentage of 0 on a column without non-null
  values. \<open>detect_outliers\<close> divides the outlier count by the number of non-null
  values without a guard: on the all-null column below both methods report the
  percentage \<open>NaN\<close>, the value of 0/0.
\<close>

theorem detect_outliers_empty_percentage:
  "map_sum id outlier_percentage (detect_outliers null_frame ''score'' ''zscore'') = Inr NaN
   \<and> map_sum id outlier_percentage (detect_outliers null_frame ''score'' ''iqr'') = Inr NaN"
  by (simp add: detect_outliers_def null_frame_def getitem_def cell_at_def dropna_series_def
      zscore_def iqr_bounds_Nil count_true_def selected_def np_div_def)

section \<open>Statistics of a column without data\<close>

lemma col_pos_None: "col_pos hs c = None \<longleftrightarrow> c \<notin> fst ` set hs"
  by (induction hs c rule: col_pos.induct) auto

lemma getitem_Inr_column:
  assumes "getitem df c = Inr s"
  shows "c \<in> set (map fst (columns df))"
proof -
  have "col_pos (columns df) c \<noteq> None"
    using assms by (auto simp: getitem_def split: option.splits)
  then show ?thesis by (simp add: col_pos_None)
qed

lemma all_columns_statistics_lookup:
  assumes "all_columns_statistics df cols res = Inr r"
    and "c \<in> set cols"
    and "column_statistics df c = Inr v"
  shows "map_of r c = Some v"
proof -
  have "all_columns_statistics df cols res = Inr r \<Longrightarrow>
          map_of r c = (if c \<in> set cols then Some v else map_of res c)"
  proof (induction cols arbitrary: res)
    case Nil
    then show ?case by simp
  next
    case (Cons col cols)
    then obtain w where w: "column_statistics df col = Inr w"
      and rest: "all_columns_statistics df cols (AList.update col w res) = Inr r"
      by (auto split: sum.splits)
    have "map_of r c = (if c \<in> set cols then Some v else map_of (AList.update col w res) c)"
      using Cons.IH [OF rest] .
    then show ?case
      using w assms(3) by (auto simp: update_conv')
  qed
  then show ?thesis using assms(1,2) by simp
qed

lemma all_columns_statistics_returns:
  assumes "\<forall>k\<in>set cols. \<exists>v. column_statistics df k = Inr v"
  shows "\<exists>r. all_columns_statistics df cols res = Inr r"
  using assms
proof (induction cols arbitrary: res)
  case Nil
  then show ?case by simp
next
  case (Cons col cols)
  then obtain v where v: "column_statistics df col = Inr v" by auto
  have "\<exists>r. all_columns_statistics df cols (AList.update col v res) = Inr r"
    using Cons by simp
  then show ?case using v by simp
qed

lemma dropna_series_all_null:
  "\<forall>x\<in>set s. snd x = NA \<Longrightarrow> dropna_series s = []"
  by (auto simp: dropna_series_def filter_empty_conv)

lemma numeric_statistics_all_null:
  "\<forall>x\<in>set s. snd x = NA \<Longrightarrow> numeric_statistics (dropna_series s) = Inr NoNumericData"
  by (simp add: dropna_series_all_null) (simp add: numeric_statistics_def dropna_series_def)

text \<open>
  Claim C9. For a column of numeric dtype all of whose entries are null,
  \<open>calculate_statistics\<close> returns the "No numeric data available" marker for that
  column and does not fail on it. Asked for by name, the column gets the marker.
  When all columns are summarised, every result of the call holds the marker for
  the column, and the call returns unless the summary of another column fails.
\<close>

theorem statistics_empty_numeric_column:
  assumes "getitem df c = Inr s"
    and "is_numeric_dtype (dtype_of df c)"
    and "\<forall>x\<in>set s. snd x = NA"
  shows "(c \<noteq> [] \<longrightarrow> calculate_statistics df (Some c) = Inr [(c, NoNumericData)])
         \<and> (\<forall>r. calculate_statistics df None = Inr r \<longrightarrow> map_of r c = Some NoNumericData)
         \<and> ((\<forall>k\<in>set (map fst (columns df)). k \<noteq> c \<longrightarrow> (\<exists>v. column_statistics df k = Inr v)) \<longrightarrow>
              (\<exists>r. calculate_statistics df None = Inr r \<and> map_of r c = Some NoNumericData))"
proof (intro conjI)
  have col: "c \<in> set (map fst (columns df))"
    using assms(1) by (rule getitem_Inr_column)
  have cs: "column_statistics df c = Inr NoNumericData"
    using assms by (simp add: column_statistics_def Let_def numeric_statistics_all_null)
  have none: "calculate_statistics df None = all_columns_statistics df (map fst (columns df)) []"
    by (simp add: calculate_statistics_def truthy_def)
  show "c \<noteq> [] \<longrightarrow> calculate_statistics df (Some c) = Inr [(c, NoNumericData)]"
    using col cs by (simp add: calculate_statistics_def truthy_def)
  show look: "\<forall>r. calculate_statistics df None = Inr r \<longrightarrow> map_of r c = Some NoNumericData"
  proof (intro allI impI)
    fix r
    assume "calculate_statistics df None = Inr r"
    then have "all_columns_statistics df (map fst (columns df)) [] = Inr r"
      by (simp only: none)
    then show "map_of r c = Some NoNumericData"
      using col cs by (rule all_columns_statistics_lookup)
  qed
  show "(\<forall>k\<in>set (map fst (columns df)). k \<noteq> c \<longrightarrow> (\<exists>v. column_statistics df k = Inr v)) \<longrightarrow>
              (\<exists>r. calculate_statistics df None = Inr r \<and> map_of r c = Some NoNumericData)"
  proof
    assume others: "\<forall>k\<in>set (map fst (columns df)). k \<noteq> c \<longrightarrow> (\<exists>v. column_statistics df k = Inr v)"
    have every: "\<forall>k\<in>set (map fst (columns df)). \<exists>v. column_statistics df k = Inr v"
    proof
      fix k
      assume k: "k \<in> set (map fst (columns df))"
      show "\<exists>v. column_statistics df k = Inr v"
      proof (cases "k = c")
        case True
        then show ?thesis using cs by simp
      next
        case False
        have "k \<noteq> c \<longrightarrow> (\<exists>v. column_statistics df k = Inr v)"
          using others k by (rule bspec)
        then show ?thesis using False by (rule mp)
      qed
    qed
    obtain r where r: "all_columns_statistics df (map fst (columns df)) [] = Inr r"
      using all_columns_statistics_returns [OF every, of "[]"] by (elim exE)
    have "calculate_statistics df None = Inr r"
      using r by (simp only: none)
    moreover have "map_of r c = Some NoNumericData"
      using r col cs by (rule all_columns_statistics_lookup)
    ultimately show "\<exists>r. calculate_statistics df None = Inr r \<and> map_of r c = Some NoNumericData"
      by (intro exI conjI)
  qed
qed

lemma null_frame_column: "getitem null_frame ''score'' = Inr [(0, NA), (1, NA)]"
  by (simp add: getitem_def null_frame_def cell_at_def)

lemma null_frame_dtype: "is_numeric_dtype (dtype_of null_frame ''score'')"
  by (simp add: is_numeric_dtype_def dtype_of_def null_frame_def)

theorem statistics_empty_numeric_column_witness:
  "getitem null_frame ''score'' = Inr [(0, NA), (1, NA)]
   \<and> is_numeric_dtype (dtype_of null_frame ''score'')
   \<and> ''score'' \<noteq> []
   \<and> calculate_statistics null_frame (Some ''score'') = Inr [(''score'', NoNumericData)]
   \<and> (\<exists>r. calculate_statistics null_frame None = Inr r
          \<and> map_of r ''score'' = Some NoNumericData)"
proof -
  have h: "\<forall>x\<in>set [(0::int, NA), (1, NA)]. snd x = NA" by simp
  have n: "''score'' \<noteq> []" by simp
  have o: "\<forall>k\<in>set (map fst (columns null_frame)). k \<noteq> ''score'' \<longrightarrow>
             (\<exists>v. column_statistics null_frame k = Inr v)"
    by (simp add: null_frame_def)
  note t = statistics_empty_numeric_column [OF null_frame_column null_frame_dtype h]
  have a: "calculate_statistics null_frame (Some ''score'') = Inr [(''score'', NoNumericData)]"
    using t n by (elim conjE) simp
  have b: "\<exists>r. calculate_statistics null_frame None = Inr r
          \<and> map_of r ''score'' = Some NoNumericData"
    using t o by (elim conjE) simp
  show ?thesis
    using null_frame_column null_frame_dtype n a b by (intro conjI)
qed

section \<open>The z-score method\<close>

lemma np_gt_abs_div:
  assumes "0 \<le> sd"
  shows "np_gt (np_abs (np_div d sd)) 3 \<longleftrightarrow> 3 * sd < \<bar>d\<bar>"
proof (cases "sd = 0")
  case True
  then show ?thesis by (simp add: np_div_def)
next
  case False
  then have "0 < sd" using assms by simp
  then show ?thesis
    by (simp add: np_div_def False pos_less_divide_eq)
qed

lemma three_sqrt_less:
  assumes "0 \<le> v"
  shows "3 * sqrt v < \<bar>d\<bar> \<longleftrightarrow> 9 * v < d\<^sup>2"
proof -
  have "3 * sqrt v = sqrt (9 * v)"
    by (simp add: real_sqrt_mult)
  moreover have "\<bar>d\<bar> = sqrt (d\<^sup>2)" by simp
  ultimately show ?thesis
    by (simp only: real_sqrt_less_iff)
qed

lemma zscore_flags:
  "map ((\<lambda>z. np_gt z 3) \<circ> np_abs) (zscore vals) =
     map (\<lambda>x. 3 * population_std vals < \<bar>x - column_mean vals\<bar>) vals"
proof -
  have "0 \<le> squared_deviations vals"
    unfolding squared_deviations_def by (rule sum_list_nonneg) auto
  then have "0 \<le> population_std vals"
    by (simp add: population_std_def)
  then show ?thesis
    by (simp add: zscore_def Let_def np_gt_abs_div population_std_def squared_deviations_def
        column_mean_def)
qed

lemma to_floats_cells: "to_floats s = Inr vals \<Longrightarrow> map snd s = map Num vals"
proof (induction s arbitrary: vals rule: to_floats.induct)
  case 1
  then show ?case by simp
next
  case (2 l r s)
  then show ?case by (auto split: sum.splits)
qed simp_all

lemma selected_map: "selected xs (map p xs) = filter p xs"
  by (induction xs) (auto simp: selected_def)

lemma count_true_map: "count_true (map p xs) = int (length (filter p xs))"
  by (induction xs) (auto simp: count_true_def)

lemma flags_on_cells:
  assumes "to_floats data = Inr vals"
  shows "map f vals = map (\<lambda>r. case snd r of Num x \<Rightarrow> f x | _ \<Rightarrow> False) data"
proof -
  have "map (\<lambda>r. case snd r of Num x \<Rightarrow> f x | _ \<Rightarrow> False) data
        = map (\<lambda>c. case c of Num x \<Rightarrow> f x | _ \<Rightarrow> False) (map snd data)"
    by simp
  also have "\<dots> = map (\<lambda>c. case c of Num x \<Rightarrow> f x | _ \<Rightarrow> False) (map Num vals)"
    using to_floats_cells [OF assms] by simp
  also have "\<dots> = map f vals" by simp
  finally show ?thesis by simp
qed

lemma zscore_flags_squares:
  "map ((\<lambda>z. np_gt z 3) \<circ> np_abs) (zscore vals) =
     map (\<lambda>x. 9 * (squared_deviations vals / real (length vals)) < (x - column_mean vals)\<^sup>2) vals"
proof -
  have "0 \<le> squared_deviations vals"
    unfolding squared_deviations_def by (rule sum_list_nonneg) auto
  then have "0 \<le> squared_deviations vals / real (length vals)"
    by simp
  then show ?thesis
    by (simp add: zscore_flags population_std_def three_sqrt_less)
qed

lemma sample_flag_iff:
  assumes "0 < v"
  shows "3 < \<bar>d / sqrt v\<bar> \<longleftrightarrow> 9 * v < d\<^sup>2"
proof -
  have "0 < sqrt v" using assms by simp
  then have "3 < \<bar>d / sqrt v\<bar> \<longleftrightarrow> 3 * sqrt v < \<bar>d\<bar>"
    by (simp add: abs_divide pos_less_divide_eq)
  then show ?thesis using three_sqrt_less [of v d] assms by simp
qed

lemma detect_outliers_zscore_flags:
  assumes "getitem df c = Inr s"
    and "to_floats (dropna_series s) = Inr vals"
  shows "\<exists>info. detect_outliers df c ''zscore'' = Inr info
           \<and> threshold info = Some 3
           \<and> total_outliers info =
               int (length (filter (\<lambda>r. population_zscore_outlier vals (snd r)) (dropna_series s)))
           \<and> outlier_indices info =
               take 100 (map fst (filter (\<lambda>r. population_zscore_outlier vals (snd r)) (dropna_series s)))
           \<and> outlier_values info =
               take 10 (map snd (filter (\<lambda>r. population_zscore_outlier vals (snd r)) (dropna_series s)))"
proof -
  have "map ((\<lambda>z. np_gt z 3) \<circ> np_abs) (zscore vals) =
          map (\<lambda>x. 3 * population_std vals < \<bar>x - column_mean vals\<bar>) vals"
    by (rule zscore_flags)
  also have "\<dots> = map (\<lambda>r. population_zscore_outlier vals (snd r)) (dropna_series s)"
    using flags_on_cells [OF assms(2), of "\<lambda>x. 3 * population_std vals < \<bar>x - column_mean vals\<bar>"]
    by (simp add: population_zscore_outlier_def)
  finally have fl: "map ((\<lambda>z. np_gt z 3) \<circ> np_abs) (zscore vals) =
      map (\<lambda>r. population_zscore_outlier vals (snd r)) (dropna_series s)" .
  have cnt: "count_true (map ((\<lambda>z. np_gt z 3) \<circ> np_abs) (zscore vals)) =
      int (length (filter (\<lambda>r. population_zscore_outlier vals (snd r)) (dropna_series s)))"
    by (simp only: fl count_true_map)
  have sel: "selected (dropna_series s) (map ((\<lambda>z. np_gt z 3) \<circ> np_abs) (zscore vals)) =
      filter (\<lambda>r. population_zscore_outlier vals (snd r)) (dropna_series s)"
    by (simp only: fl selected_map)
  have "detect_outliers df c ''zscore'' =
      Inr \<lparr>method_name = ''Z-Score'', threshold = Some 3, lower_bound = None, upper_bound = None,
           total_outliers = count_true (map ((\<lambda>z. np_gt z 3) \<circ> np_abs) (zscore vals)),
           outlier_percentage =
             np_times (np_div (real_of_int (count_true (map ((\<lambda>z. np_gt z 3) \<circ> np_abs) (zscore vals))))
                              (real (length (dropna_series s)))) 100,
           outlier_indices =
             take 100 (map fst (selected (dropna_series s) (map ((\<lambda>z. np_gt z 3) \<circ> np_abs) (zscore vals)))),
           outlier_values =
             take 10 (map snd (selected (dropna_series s) (map ((\<lambda>z. np_gt z 3) \<circ> np_abs) (zscore vals))))\<rparr>"
    using assms(1) by (simp add: detect_outliers_def Let_def to_floats_zscore_input [OF assms(2)])
  then show ?thesis
    by (simp add: cnt sel)
qed

lemma readings_zscore:
  "detect_outliers readings_frame ''value'' ''zscore'' =
     Inr \<lparr>method_name = ''Z-Score'', threshold = Some 3, lower_bound = None, upper_bound = None,
          total_outliers = 0, outlier_percentage = Fin 0, outlier_indices = [],
          outlier_values = []\<rparr>"
proof -
  have fl: "map ((\<lambda>z. np_gt z 3) \<circ> np_abs) (zscore [1, 2, 3, 4, 5, 100]) =
          [False, False, False, False, False, False]"
    by (simp add: zscore_flags_squares squared_deviations_def column_mean_def power2_eq_square)
  show ?thesis
    by (simp add: detect_outliers_def readings_frame_def getitem_def cell_at_def dropna_series_def fl)
       (simp add: selected_def count_true_def np_div_def)
qed

lemma readings_iqr:
  "detect_outliers readings_frame ''value'' ''iqr'' =
     Inr \<lparr>method_name = ''IQR'', threshold = None, lower_bound = Some (Fin (- 3 / 2)),
          upper_bound = Some (Fin (17 / 2)),
          total_outliers = 1, outlier_percentage = Fin (100 / 6), outlier_indices = [5],
          outlier_values = [Num 100]\<rparr>"
  by (simp add: detect_outliers_def readings_frame_def getitem_def cell_at_def dropna_series_def iqr_bounds_def quantile_def
      selected_def count_true_def np_div_def)

lemma load_zscore:
  "detect_outliers load_frame ''load'' ''zscore'' =
     Inr \<lparr>method_name = ''Z-Score'', threshold = Some 3, lower_bound = None, upper_bound = None,
          total_outliers = 1, outlier_percentage = Fin (100 / 11), outlier_indices = [10],
          outlier_values = [Num 9]\<rparr>"
proof -
  have fl: "map ((\<lambda>z. np_gt z 3) \<circ> np_abs) (zscore [0, 0, 0, 0, 0, 0, 0, 0, 0, 2, 9]) =
          [False, False, False, False, False, False, False, False, False, False, True]"
    by (simp add: zscore_flags_squares squared_deviations_def column_mean_def power2_eq_square)
  show ?thesis
    by (simp add: detect_outliers_def load_frame_def getitem_def cell_at_def dropna_series_def fl)
       (simp add: selected_def count_true_def np_div_def)
qed

lemma load_sample:
  "\<not> sample_zscore_outlier [0, 0, 0, 0, 0, 0, 0, 0, 0, 2, 9] 9"
proof -
  have sd: "sample_std [0, 0, 0, 0, 0, 0, 0, 0, 0, 2, 9] = sqrt (37 / 5)"
    by (simp add: sample_std_def squared_deviations_def column_mean_def power2_eq_square)
  have "\<not> 3 < \<bar>(9 - 1) / sqrt (37 / 5 :: real)\<bar>"
    by (subst sample_flag_iff) simp_all
  then show ?thesis
    by (simp add: sample_zscore_outlier_def sd column_mean_def)
qed

lemma load_frame_column:
  "getitem load_frame ''load'' =
     Inr [(0, Num 0), (1, Num 0), (2, Num 0), (3, Num 0), (4, Num 0), (5, Num 0), (6, Num 0),
          (7, Num 0), (8, Num 0), (9, Num 2), (10, Num 9)]"
  by (simp add: getitem_def load_frame_def cell_at_def)

lemma load_frame_floats:
  "to_floats (dropna_series
     [(0, Num 0), (1, Num 0), (2, Num 0), (3, Num 0), (4, Num 0), (5, Num 0), (6, Num 0),
      (7, Num 0), (8, Num 0), (9, Num 2), (10, Num 9)]) =
     Inr [0, 0, 0, 0, 0, 0, 0, 0, 0, 2, 9]"
  by (simp add: dropna_series_def)

text \<open>
  Claim C2, as stated, fails. In the column 0, 0, 0, 0, 0, 0, 0, 0, 0, 2, 9 the value 9
  has the z-score 2.94 when the deviation is the sample standard deviation, so the
  claim has no value flagged; \<open>detect_outliers\<close> flags it.
\<close>

theorem zscore_sample_deviation_counterexample:
  "detect_outliers load_frame ''load'' ''zscore'' =
     Inr \<lparr>method_name = ''Z-Score'', threshold = Some 3, lower_bound = None, upper_bound = None,
          total_outliers = 1, outlier_percentage = Fin (100 / 11), outlier_indices = [10],
          outlier_values = [Num 9]\<rparr>
   \<and> \<not> sample_zscore_outlier [0, 0, 0, 0, 0, 0, 0, 0, 0, 2, 9] 9"
  using load_zscore load_sample by simp

text \<open>
  Claim C2, amended. For every column whose non-null values are numbers,
  \<open>detect_outliers\<close> with method \<open>"zscore"\<close> reports the threshold 3 and flags
  exactly the values \<open>x\<close> with \<open>|x - mean| > 3 \<sigma>\<close>, where \<open>\<sigma>\<close> is the
  population standard deviation (denominator \<open>n\<close>) of the non-null values: the
  count, the first 100 indices and the first 10 values reported are those of the
  flagged rows. In the column 1, 2, 3, 4, 5, 100 the z-score method flags nothing, and
  the IQR method has the bounds -1.5 and 8.5 and flags 100.
\<close>

theorem detect_outliers_zscore_population:
  "(getitem df c = Inr s \<and> to_floats (dropna_series s) = Inr vals \<longrightarrow>
      (\<exists>info. detect_outliers df c ''zscore'' = Inr info
         \<and> threshold info = Some 3
         \<and> total_outliers info =
             int (length (filter (\<lambda>r. population_zscore_outlier vals (snd r)) (dropna_series s)))
         \<and> outlier_indices info =
             take 100 (map fst (filter (\<lambda>r. population_zscore_outlier vals (snd r)) (dropna_series s)))
         \<and> outlier_values info =
             take 10 (map snd (filter (\<lambda>r. population_zscore_outlier vals (snd r)) (dropna_series s)))))
   \<and> detect_outliers readings_frame ''value'' ''zscore'' =
       Inr \<lparr>method_name = ''Z-Score'', threshold = Some 3, lower_bound = None,
            upper_bound = None, total_outliers = 0, outlier_percentage = Fin 0,
            outlier_indices = [], outlier_values = []\<rparr>
   \<and> detect_outliers readings_frame ''value'' ''iqr'' =
       Inr \<lparr>method_name = ''IQR'', threshold = None, lower_bound = Some (Fin (- 3 / 2)),
            upper_bound = Some (Fin (17 / 2)), total_outliers = 1,
            outlier_percentage = Fin (100 / 6), outlier_indices = [5],
            outlier_values = [Num 100]\<rparr>"
  using detect_outliers_zscore_flags [of df c s vals] readings_zscore readings_iqr
  by blast

theorem detect_outliers_zscore_population_witness:
  "getitem load_frame ''load'' =
     Inr [(0, Num 0), (1, Num 0), (2, Num 0), (3, Num 0), (4, Num 0), (5, Num 0), (6, Num 0),
          (7, Num 0), (8, Num 0), (9, Num 2), (10, Num 9)]
   \<and> to_floats (dropna_series
       [(0, Num 0), (1, Num 0), (2, Num 0), (3, Num 0), (4, Num 0), (5, Num 0), (6, Num 0),
        (7, Num 0), (8, Num 0), (9, Num 2), (10, Num 9)]) =
     Inr [0, 0, 0, 0, 0, 0, 0, 0, 0, 2, 9]
   \<and> (\<exists>info. detect_outliers load_frame ''load'' ''zscore'' = Inr info
          \<and> threshold info = Some 3)"
  using load_frame_column load_frame_floats
    detect_outliers_zscore_population [of load_frame "''load''"
      "[(0, Num 0), (1, Num 0), (2, Num 0), (3, Num 0), (4, Num 0), (5, Num 0), (6, Num 0),
        (7, Num 0), (8, Num 0), (9, Num 2), (10, Num 9)]"
      "[0, 0, 0, 0, 0, 0, 0, 0, 0, 2, 9]"]
  by blast

section \<open>Statistics of a boolean column\<close>

text \<open>
  Claim C5. The claim has every column that is not numeric, boolean columns
  included, summarised as categorical. \<open>calculate_statistics\<close> chooses the branch by
  \<open>is_numeric_dtype\<close>, which holds of the bool dtype: the column of booleans below
  takes the numeric branch, where \<open>data.quantile(0.25)\<close> raises \<open>TypeError\<close>, so
  the call fails for the column asked for by name and for the whole frame when all
  columns are summarised. The text column of the same frame gets the categorical
  summary.
\<close>

theorem statistics_bool_column_type_error:
  "is_bool_dtype (dtype_of flags_frame ''active'')
   \<and> calculate_statistics flags_frame (Some ''active'') = Inl TypeError
   \<and> calculate_statistics flags_frame None = Inl TypeError
   \<and> calculate_statistics flags_frame (Some ''city'') =
       Inr [(''city'',
             Categorical \<lparr>cat_count = 3, unique_values = 2, most_common = Some (Str ''Oslo''),
                          top_value_counts = [(Str ''Oslo'', 2), (Str ''Rome'', 1)],
                          mode_frequency = 2\<rparr>)]"
  by (simp add: calculate_statistics_def column_statistics_def getitem_def cell_at_def
      dropna_series_def dtype_of_def is_numeric_dtype_def is_bool_dtype_def
      numeric_statistics_def categorical_statistics_def value_counts_def uniques_def
      mode_def least_def truthy_def flags_frame_def)

section \<open>Outlier removal on a column without spread\<close>

lemma zscore_pair: "zscore [7, 7] = [NaN, NaN]"
  using zscore_replicate [of 2 7] by (simp add: numeral_2_eq_2)

text \<open>
  Claim C8. The claim has the outlier stage remove exactly the rows whose target
  value is flagged. On the frame below the drop stage leaves two rows with the same
  price; \<open>detect_outliers\<close> flags none of them, their z-scores being undefined, and
  yet the z-score stage of \<open>clean_dataset\<close> keeps only rows with \<open>|z| \<le> 3\<close> and
  so removes both.
\<close>

theorem clean_zscore_constant_column:
  "clean_dataset price_frame ''drop'' False True (Some ''price'') ''zscore'' =
     Inr \<lparr>columns = [(''price'', Float64)], rows = []\<rparr>
   \<and> map_sum id total_outliers (detect_outliers (dropna price_frame) ''price'' ''zscore'') = Inr 0
   \<and> rows (dropna price_frame) = [(0, [Num 7]), (2, [Num 7])]"
  by (simp add: clean_dataset_def handle_missing_stage_def dropna_def truthy_def
      remove_outlier_rows_def detect_outliers_def getitem_def cell_at_def dropna_series_def
      price_frame_def zscore_pair apply_mask_def count_true_def selected_def)

end
